theory Spec2Isabelle
  imports Main "HOL-Library.AList"
begin

section \<open>JavaScript values, errors and promises\<close>

text \<open>
  The values that travel through the caches are the JSON-like values of JavaScript. A number
  is \<^verbatim>\<open>NaN\<close>, one of the two infinities (\<open>JInfinity True\<close> is the positive one) or a finite
  number; of the finite numbers only the integers are represented (\<open>JNum n\<close>: timestamps and
  counters are the only numbers the code stores), and an integer beyond the range that a
  double holds exactly stands for no JavaScript value. An object is its list of own
  properties in insertion order.
\<close>

datatype jsval =
    JUndefined
  | JNull
  | JBool bool
  | JNum int
  | JNaN
  | JInfinity bool
  | JStr string
  | JObj "(string \<times> jsval) list"

text \<open>What \<^verbatim>\<open>if (v)\<close> tests.\<close>

fun truthy :: "jsval \<Rightarrow> bool" where
  "truthy JUndefined = False"
| "truthy JNull = False"
| "truthy (JBool b) = b"
| "truthy (JNum n) = (n \<noteq> 0)"
| "truthy JNaN = False"
| "truthy (JInfinity positive) = True"
| "truthy (JStr s) = (s \<noteq> [])"
| "truthy (JObj ps) = True"

text \<open>A thrown value: \<^verbatim>\<open>new Error(message)\<close>, the built-in error classes, and the errors
  raised by the Redis client and by the database driver.\<close>

datatype error =
    Error string
  | TypeError
  | SyntaxError
  | RangeError
  | RedisError
  | MongoError

text \<open>The promise of an \<^verbatim>\<open>async\<close> function: resolved with a value, rejected with an
  error, or never settled.\<close>

datatype 'a promise = Resolved 'a | Rejected error | Pending

text \<open>
  A string held by Redis is either the JSON text of a value, written here as the value it
  denotes, or some other text. \<^verbatim>\<open>JSON.stringify\<close> returns \<^verbatim>\<open>undefined\<close> (here \<open>None\<close>) for
  \<^verbatim>\<open>undefined\<close>, drops properties whose value is \<^verbatim>\<open>undefined\<close> and writes \<^verbatim>\<open>null\<close> for
  \<^verbatim>\<open>NaN\<close> and the infinities; \<^verbatim>\<open>JSON.parse\<close> gives the value of a JSON text back and
  throws a SyntaxError on any other text. A JSON text is never the empty string.
\<close>

datatype redis_string = JsonText jsval | RawText string

fun json_norm :: "jsval \<Rightarrow> jsval" where
  "json_norm (JObj ps) =
     JObj (map (\<lambda>(k, v). (k, json_norm v)) (filter (\<lambda>(k, v). v \<noteq> JUndefined) ps))"
| "json_norm JNaN = JNull"
| "json_norm (JInfinity positive) = JNull"
| "json_norm v = v"

definition JSON_stringify :: "jsval \<Rightarrow> redis_string option" where
  "JSON_stringify v = (if v = JUndefined then None else Some (JsonText (json_norm v)))"

fun JSON_parse :: "redis_string \<Rightarrow> error + jsval" where
  "JSON_parse (JsonText v) = Inr v"
| "JSON_parse (RawText s) = Inl SyntaxError"

fun string_truthy :: "redis_string \<Rightarrow> bool" where
  "string_truthy (JsonText v) = True"
| "string_truthy (RawText s) = (s \<noteq> [])"

section \<open>CacheManager\<close>

text \<open>
  The two tiers. Tier 1 is the in-process LRU cache, modelled as the map from keys to the
  values it currently holds (expiry and eviction happen between calls, not inside one).
  Tier 2 is Redis: \<open>l2Store\<close> is what the server holds, \<open>l2Client\<close> says that the client
  object exists, \<open>isRedisConnected\<close> is the flag kept by the client's event handlers.
  \<open>l2Faults\<close> is the environment: for each coming Redis command, in order, whether it
  throws; once the list is used up, commands succeed.
\<close>

record CacheManager =
  l1Cache :: "string \<rightharpoonup> jsval"
  l2Client :: bool
  isRedisConnected :: bool
  l2Store :: "string \<rightharpoonup> redis_string"
  l2Faults :: "bool list"

definition redisConfig_keyPrefix_models :: string where
  "redisConfig_keyPrefix_models = ''models:''"

definition appConfig_cache_l2_ttl :: int where
  "appConfig_cache_l2_ttl = 1800000"

definition generateKey :: "string \<Rightarrow> string" where
  "generateKey tenantId = redisConfig_keyPrefix_models @ tenantId"

text \<open>\<^verbatim>\<open>l1Cache.get(key)\<close> gives \<^verbatim>\<open>undefined\<close> for a missing key; \<^verbatim>\<open>l1Cache.set(key, undefined)\<close>
  deletes the key.\<close>

definition lru_get :: "(string \<rightharpoonup> jsval) \<Rightarrow> string \<Rightarrow> jsval" where
  "lru_get m key = (case m key of None \<Rightarrow> JUndefined | Some v \<Rightarrow> v)"

definition lru_set :: "(string \<rightharpoonup> jsval) \<Rightarrow> string \<Rightarrow> jsval \<Rightarrow> (string \<rightharpoonup> jsval)" where
  "lru_set m key v = (if v = JUndefined then m(key := None) else m(key \<mapsto> v))"

text \<open>One Redis command takes the next fault of the environment.\<close>

definition next_fault :: "CacheManager \<Rightarrow> bool \<times> CacheManager" where
  "next_fault c =
     (case l2Faults c of
        [] \<Rightarrow> (False, c)
      | f # fs \<Rightarrow> (f, c\<lparr>l2Faults := fs\<rparr>))"

definition l2Client_get :: "string \<Rightarrow> CacheManager \<Rightarrow> (error + redis_string option) \<times> CacheManager" where
  "l2Client_get key c =
     (case next_fault c of
        (True, c') \<Rightarrow> (Inl RedisError, c')
      | (False, c') \<Rightarrow> (Inr (l2Store c' key), c'))"

text \<open>\<^verbatim>\<open>SETEX key seconds value\<close>: the server refuses a lifetime that is not positive, and
  the client refuses a value that is not a string.\<close>

definition l2Client_setEx ::
  "string \<Rightarrow> int \<Rightarrow> redis_string option \<Rightarrow> CacheManager \<Rightarrow> (error + unit) \<times> CacheManager" where
  "l2Client_setEx key seconds serialized c =
     (case serialized of
        None \<Rightarrow> (Inl TypeError, c)
      | Some text \<Rightarrow>
          (case next_fault c of
             (True, c') \<Rightarrow> (Inl RedisError, c')
           | (False, c') \<Rightarrow>
               if seconds \<le> 0 then (Inl RedisError, c')
               else (Inr (), c'\<lparr>l2Store := (l2Store c')(key \<mapsto> text)\<rparr>)))"

text \<open>The body of the \<^verbatim>\<open>try\<close> block of \<^verbatim>\<open>get\<close>: \<open>Inl\<close> is a throw, \<open>Inr (Some v)\<close> is
  \<^verbatim>\<open>return parsedValue\<close>, \<open>Inr None\<close> falls out of the block.\<close>

definition get_l2_try :: "string \<Rightarrow> CacheManager \<Rightarrow> (error + jsval option) \<times> CacheManager" where
  "get_l2_try key c =
     (case l2Client_get key c of
        (Inl e, c') \<Rightarrow> (Inl e, c')
      | (Inr None, c') \<Rightarrow> (Inr None, c')
      | (Inr (Some l2Value), c') \<Rightarrow>
          if string_truthy l2Value then
            (case JSON_parse l2Value of
               Inl e \<Rightarrow> (Inl e, c')
             | Inr parsedValue \<Rightarrow>
                 (Inr (Some parsedValue), c'\<lparr>l1Cache := lru_set (l1Cache c') key parsedValue\<rparr>))
          else (Inr None, c'))"

text \<open>\<^verbatim>\<open>async get(tenantId)\<close>: \<open>Inl\<close> would be a rejected promise.\<close>

definition CM_get :: "string \<Rightarrow> CacheManager \<Rightarrow> (error + jsval) \<times> CacheManager" where
  "CM_get tenantId c =
     (let key = generateKey tenantId;
          l1Value = lru_get (l1Cache c) key
      in if truthy l1Value then (Inr l1Value, c)
         else if isRedisConnected c \<and> l2Client c then
           (case get_l2_try key c of
              (Inr (Some parsedValue), c') \<Rightarrow> (Inr parsedValue, c')
            | (Inr None, c') \<Rightarrow> (Inr JNull, c')
            | (Inl e, c') \<Rightarrow> (Inr JNull, c'))
         else (Inr JNull, c))"

text \<open>The body of the \<^verbatim>\<open>try\<close> block of \<^verbatim>\<open>set\<close>; \<^verbatim>\<open>ttl || appConfig.cache.l2.ttl\<close> takes the
  default for \<^verbatim>\<open>null\<close> and for 0.\<close>

definition set_l2_try ::
  "string \<Rightarrow> jsval \<Rightarrow> int option \<Rightarrow> CacheManager \<Rightarrow> (error + unit) \<times> CacheManager" where
  "set_l2_try key v ttl c =
     (let serialized = JSON_stringify v;
          redisTTL = (case ttl of None \<Rightarrow> appConfig_cache_l2_ttl
                      | Some t \<Rightarrow> if t = 0 then appConfig_cache_l2_ttl else t)
      in l2Client_setEx key (redisTTL div 1000) serialized c)"

definition CM_set ::
  "string \<Rightarrow> jsval \<Rightarrow> int option \<Rightarrow> CacheManager \<Rightarrow> (error + unit) \<times> CacheManager" where
  "CM_set tenantId v ttl c =
     (let key = generateKey tenantId;
          c1 = c\<lparr>l1Cache := lru_set (l1Cache c) key v\<rparr>
      in if isRedisConnected c1 \<and> l2Client c1 then
           (case set_l2_try key v ttl c1 of
              (Inr u, c2) \<Rightarrow> (Inr (), c2)
            | (Inl e, c2) \<Rightarrow> (Inr (), c2))
         else (Inr (), c1))"

definition isL2Available :: "CacheManager \<Rightarrow> bool" where
  "isL2Available c = isRedisConnected c"

section \<open>TenantConnectionManager\<close>

text \<open>A mongoose schema is known by a name only. A model is what \<^verbatim>\<open>connection.model(name,
  schema)\<close> returns: the schema bound to one connection under a name, with the collection
  mongoose derives from that name.\<close>

datatype Schema = Schema string

record Model =
  modelName :: string
  modelSchema :: Schema
  modelDb :: string
  collectionName :: string

datatype conn_event = Connected | Disconnected | Reconnected | ErrorEvent error

text \<open>
  A connection object: its database, its \<^verbatim>\<open>readyState\<close> (0 disconnected, 1 connected,
  2 connecting, 3 disconnecting), the models compiled on it (\<^verbatim>\<open>connection.models\<close>), and the
  events it is going to emit from now on, in order.
\<close>

record Connection =
  dbName :: string
  readyState :: nat
  conn_models :: "(string \<times> Model) list"
  emits :: "conn_event list"

text \<open>What happens to an opening connection: the three callbacks that race in
  \<^verbatim>\<open>createConnection\<close> are \<^verbatim>\<open>'connected'\<close>, \<^verbatim>\<open>'error'\<close> and the 10 second timer.\<close>

datatype open_outcome = OpenConnected | OpenError error | OpenTimeout

text \<open>
  The manager: the two maps of the class (JavaScript \<^verbatim>\<open>Map\<close>s, in insertion order), and the
  environment: the clock read by \<^verbatim>\<open>Date.now()\<close>, the outcomes of the coming opens and the
  failures of the coming \<^verbatim>\<open>createIndexes()\<close> calls (once a list is used up, opens connect and
  index builds succeed), and mongoose's function from model names to collection names.
\<close>

record TenantConnectionManager =
  connections :: "(string \<times> Connection) list"
  connectionTimestamps :: "(string \<times> int) list"
  now :: int
  opens :: "open_outcome list"
  indexFaults :: "bool list"
  toCollectionName :: "string \<Rightarrow> string"

definition dbConfig_tenant_dbPrefix :: string where
  "dbConfig_tenant_dbPrefix = ''tenant_''"

definition updateTimestamp :: "string \<Rightarrow> TenantConnectionManager \<Rightarrow> TenantConnectionManager" where
  "updateTimestamp tenantId m =
     m\<lparr>connectionTimestamps := AList.update tenantId (now m) (connectionTimestamps m)\<rparr>"

definition next_open :: "TenantConnectionManager \<Rightarrow> open_outcome \<times> TenantConnectionManager" where
  "next_open m =
     (case opens m of
        [] \<Rightarrow> (OpenConnected, m)
      | out # outs \<Rightarrow> (out, m\<lparr>opens := outs\<rparr>))"

text \<open>The promise awaited inside \<^verbatim>\<open>createConnection\<close>: resolved by \<^verbatim>\<open>'connected'\<close>, rejected
  with the emitted error, or rejected by the timer with its own message.\<close>

definition open_wait :: "string \<Rightarrow> open_outcome \<Rightarrow> error + unit" where
  "open_wait tenantId outcome =
     (case outcome of
        OpenConnected \<Rightarrow> Inr ()
      | OpenError err \<Rightarrow> Inl err
      | OpenTimeout \<Rightarrow> Inl (Error (''Connection timeout for tenant '' @ tenantId)))"

definition TCM_createConnection ::
  "string \<Rightarrow> TenantConnectionManager \<Rightarrow> Connection promise \<times> TenantConnectionManager" where
  "TCM_createConnection tenantId m =
     (case next_open m of
        (outcome, m1) \<Rightarrow>
          (case open_wait tenantId outcome of
             Inr u \<Rightarrow>
               (let connection = \<lparr>dbName = dbConfig_tenant_dbPrefix @ tenantId, readyState = 1,
                                  conn_models = [], emits = []\<rparr>;
                    m2 = m1\<lparr>connections := AList.update tenantId connection (connections m1)\<rparr>
                in (Resolved connection, updateTimestamp tenantId m2))
           | Inl caught \<Rightarrow>
               (Rejected (Error (''Failed to establish database connection for tenant '' @ tenantId)),
                m1)))"

text \<open>\<^verbatim>\<open>closeConnection\<close>: an error of \<^verbatim>\<open>connection.close()\<close> is caught and logged, so the
  entry is removed either way.\<close>

definition TCM_closeConnection :: "string \<Rightarrow> TenantConnectionManager \<Rightarrow> TenantConnectionManager" where
  "TCM_closeConnection tenantId m =
     (case map_of (connections m) tenantId of
        None \<Rightarrow> m
      | Some connection \<Rightarrow>
          m\<lparr>connections := AList.delete tenantId (connections m),
            connectionTimestamps := AList.delete tenantId (connectionTimestamps m)\<rparr>)"

text \<open>\<^verbatim>\<open>connection.once('connected', resolve)\<close>: the promise is resolved by the first
  \<^verbatim>\<open>'connected'\<close> event; no other event settles it. The result is the events left after
  it, or \<open>None\<close> when the connection never emits \<^verbatim>\<open>'connected'\<close>.\<close>

fun await_connected :: "conn_event list \<Rightarrow> conn_event list option" where
  "await_connected [] = None"
| "await_connected (Connected # rest) = Some rest"
| "await_connected (e # rest) = await_connected rest"

definition TCM_getConnection ::
  "string \<Rightarrow> TenantConnectionManager \<Rightarrow> Connection promise \<times> TenantConnectionManager" where
  "TCM_getConnection tenantId m =
     (case map_of (connections m) tenantId of
        Some connection \<Rightarrow>
          if readyState connection = 1 then
            (Resolved connection, updateTimestamp tenantId m)
          else if readyState connection = 2 then
            (case await_connected (emits connection) of
               None \<Rightarrow> (Pending, m)
             | Some rest \<Rightarrow>
                 (let connection' = connection\<lparr>readyState := 1, emits := rest\<rparr>;
                      m1 = m\<lparr>connections := AList.update tenantId connection' (connections m)\<rparr>
                  in (Resolved connection', updateTimestamp tenantId m1)))
          else TCM_createConnection tenantId (TCM_closeConnection tenantId m)
      | None \<Rightarrow> TCM_createConnection tenantId m)"

text \<open>\<^verbatim>\<open>getStats\<close>. \<^verbatim>\<open>new Date(t).toISOString()\<close> throws a RangeError when \<open>t\<close> is outside
  the range of dates; the text it returns is stood for by \<open>t\<close> itself.\<close>

record ConnectionStat =
  stat_tenantId :: string
  stat_readyState :: nat
  readyStateString :: string
  lastUsed :: "int option"
  idleTime :: "int option"

record ConnectionStats =
  totalConnections :: nat
  stat_connections :: "ConnectionStat list"

definition toISOString :: "int \<Rightarrow> error + int" where
  "toISOString t = (if \<bar>t\<bar> \<le> 8640000000000000 then Inr t else Inl RangeError)"

definition getReadyStateString :: "nat \<Rightarrow> string" where
  "getReadyStateString rs =
     (if rs = 0 then ''disconnected'' else if rs = 1 then ''connected''
      else if rs = 2 then ''connecting'' else if rs = 3 then ''disconnecting''
      else ''unknown'')"

fun stat_entries ::
  "TenantConnectionManager \<Rightarrow> (string \<times> Connection) list \<Rightarrow> error + ConnectionStat list" where
  "stat_entries m [] = Inr []"
| "stat_entries m ((tenantId, connection) # rest) =
     (let timestamp = (case map_of (connectionTimestamps m) tenantId of
                         None \<Rightarrow> None
                       | Some t \<Rightarrow> if t = 0 then None else Some t)
      in case (case timestamp of None \<Rightarrow> Inr None
               | Some t \<Rightarrow> (case toISOString t of Inl e \<Rightarrow> Inl e | Inr isoText \<Rightarrow> Inr (Some isoText))) of
           Inl e \<Rightarrow> Inl e
         | Inr used \<Rightarrow>
             (case stat_entries m rest of
                Inl e \<Rightarrow> Inl e
              | Inr entries \<Rightarrow>
                  Inr (\<lparr>stat_tenantId = tenantId, stat_readyState = readyState connection,
                        readyStateString = getReadyStateString (readyState connection),
                        lastUsed = used,
                        idleTime = (case timestamp of None \<Rightarrow> None | Some t \<Rightarrow> Some (now m - t))\<rparr>
                       # entries)))"

definition TCM_getStats :: "TenantConnectionManager \<Rightarrow> error + ConnectionStats" where
  "TCM_getStats m =
     (case stat_entries m (connections m) of
        Inl e \<Rightarrow> Inl e
      | Inr entries \<Rightarrow>
          Inr \<lparr>totalConnections = length (connections m), stat_connections = entries\<rparr>)"

section \<open>DistributedModelRegistry\<close>

record Stats =
  cacheHits_l1 :: nat
  cacheHits_l2 :: nat
  cacheMisses :: nat
  modelCreations :: nat
  errors :: nat

text \<open>
  The registry: its two collaborators, the catalogue (\<^verbatim>\<open>registeredSchemas\<close>, a \<^verbatim>\<open>Map\<close> in
  insertion order), the per-tenant mutexes (\<open>True\<close> when held) and the counters. A call runs
  to its end before the next one starts; a mutex is found held only when an earlier call
  is still pending inside it. \<^verbatim>\<open>Date.now()\<close> reads the clock kept with the connection
  manager.
\<close>

record DistributedModelRegistry =
  cacheManager :: CacheManager
  connectionManager :: TenantConnectionManager
  registeredSchemas :: "(string \<times> Schema) list"
  modelCreationLocks :: "(string \<times> bool) list"
  stats :: Stats

definition MasterDataSchema :: Schema where
  "MasterDataSchema = Schema ''MasterData''"

text \<open>The second argument of \<^verbatim>\<open>registerSchema\<close>: an instance of \<^verbatim>\<open>mongoose.Schema\<close> or any
  other value.\<close>

datatype schema_arg = SchemaInstance Schema | OtherValue jsval

definition registerSchema ::
  "string \<Rightarrow> schema_arg \<Rightarrow> DistributedModelRegistry \<Rightarrow> error + DistributedModelRegistry" where
  "registerSchema name arg r =
     (if name = [] \<or> (case arg of OtherValue v \<Rightarrow> \<not> truthy v | SchemaInstance sc \<Rightarrow> False)
      then Inl (Error ''Model name and schema are required'')
      else case arg of
             OtherValue v \<Rightarrow> Inl (Error ''Schema must be an instance of mongoose.Schema'')
           | SchemaInstance sc \<Rightarrow>
               Inr (r\<lparr>registeredSchemas := AList.update name sc (registeredSchemas r)\<rparr>))"

text \<open>\<^verbatim>\<open>registerSchemas\<close> registers the entries in order and stops at the first that throws.\<close>

fun registerSchemas ::
  "(string \<times> schema_arg) list \<Rightarrow> DistributedModelRegistry \<Rightarrow> error + DistributedModelRegistry" where
  "registerSchemas [] r = Inr r"
| "registerSchemas ((name, arg) # rest) r =
     (case registerSchema name arg r of
        Inl e \<Rightarrow> Inl e
      | Inr r' \<Rightarrow> registerSchemas rest r')"

definition isSchemaRegistered :: "string \<Rightarrow> DistributedModelRegistry \<Rightarrow> bool" where
  "isSchemaRegistered name r = (map_of (registeredSchemas r) name \<noteq> None)"

definition getMutex :: "string \<Rightarrow> DistributedModelRegistry \<Rightarrow> DistributedModelRegistry" where
  "getMutex tenantId r =
     (case map_of (modelCreationLocks r) tenantId of
        None \<Rightarrow> r\<lparr>modelCreationLocks := AList.update tenantId False (modelCreationLocks r)\<rparr>
      | Some held \<Rightarrow> r)"

text \<open>\<^verbatim>\<open>mutex.runExclusive(body)\<close>: wait for the mutex, run the body, release the mutex
  whether the body returned or threw. A body that never settles keeps the mutex.\<close>

definition acquire :: "string \<Rightarrow> DistributedModelRegistry \<Rightarrow> DistributedModelRegistry" where
  "acquire tenantId r = r\<lparr>modelCreationLocks := AList.update tenantId True (modelCreationLocks r)\<rparr>"

definition release :: "string \<Rightarrow> DistributedModelRegistry \<Rightarrow> DistributedModelRegistry" where
  "release tenantId r = r\<lparr>modelCreationLocks := AList.update tenantId False (modelCreationLocks r)\<rparr>"

definition runExclusive ::
  "string \<Rightarrow> (DistributedModelRegistry \<Rightarrow> 'a promise \<times> DistributedModelRegistry) \<Rightarrow>
   DistributedModelRegistry \<Rightarrow> 'a promise \<times> DistributedModelRegistry" where
  "runExclusive tenantId body r =
     (if map_of (modelCreationLocks r) tenantId = Some True then (Pending, r)
      else
        (case body (acquire tenantId r) of
           (Pending, r') \<Rightarrow> (Pending, r')
         | (Resolved x, r') \<Rightarrow> (Resolved x, release tenantId r')
         | (Rejected e, r') \<Rightarrow> (Rejected e, release tenantId r')))"

text \<open>Property access and \<^verbatim>\<open>Object.entries\<close>. A missing property reads as \<^verbatim>\<open>undefined\<close>;
  \<^verbatim>\<open>Object.entries\<close> throws on \<^verbatim>\<open>undefined\<close> and \<^verbatim>\<open>null\<close>, lists the characters of a string
  under their indices, and finds nothing in a number or a boolean.\<close>

fun js_prop :: "jsval \<Rightarrow> string \<Rightarrow> jsval" where
  "js_prop (JObj ps) name = (case map_of ps name of None \<Rightarrow> JUndefined | Some v \<Rightarrow> v)"
| "js_prop v name = JUndefined"

definition digit_char :: "nat \<Rightarrow> char" where
  "digit_char d = char_of (48 + d)"

fun show_nat :: "nat \<Rightarrow> string" where
  "show_nat n = (if n < 10 then [digit_char n] else show_nat (n div 10) @ [digit_char (n mod 10)])"

declare show_nat.simps [simp del]

fun Object_entries :: "jsval \<Rightarrow> error + (string \<times> jsval) list" where
  "Object_entries JUndefined = Inl TypeError"
| "Object_entries JNull = Inl TypeError"
| "Object_entries (JObj ps) = Inr ps"
| "Object_entries (JStr s) = Inr (map (\<lambda>(i, ch). (show_nat i, JStr [ch])) (enumerate 0 s))"
| "Object_entries v = Inr []"

text \<open>\<^verbatim>\<open>connection.model(name, schema)\<close> compiles a model and records it on the connection.\<close>

definition connection_model ::
  "(string \<Rightarrow> string) \<Rightarrow> string \<Rightarrow> Schema \<Rightarrow> Connection \<Rightarrow> Model \<times> Connection" where
  "connection_model naming name sc connection =
     (let model = \<lparr>modelName = name, modelSchema = sc, modelDb = dbName connection,
                   collectionName = naming name\<rparr>
      in (model, connection\<lparr>conn_models := AList.update name model (conn_models connection)\<rparr>))"

text \<open>The loop of \<^verbatim>\<open>getCachedModels\<close> over the cached entries.\<close>

fun reconstruct ::
  "(string \<Rightarrow> string) \<Rightarrow> (string \<times> Schema) list \<Rightarrow> (string \<times> jsval) list \<Rightarrow> Connection \<Rightarrow>
   (string \<times> Model) list \<Rightarrow> (string \<times> Model) list \<times> Connection" where
  "reconstruct naming regs [] connection models = (models, connection)"
| "reconstruct naming regs ((name, modelInfo) # rest) connection models =
     (case map_of regs name of
        None \<Rightarrow> reconstruct naming regs rest connection models
      | Some sc \<Rightarrow>
          (case map_of (conn_models connection) name of
             Some existing \<Rightarrow>
               reconstruct naming regs rest connection (AList.update name existing models)
           | None \<Rightarrow>
               (case connection_model naming name sc connection of
                  (model, connection') \<Rightarrow>
                    reconstruct naming regs rest connection' (AList.update name model models))))"

definition count_miss :: "DistributedModelRegistry \<Rightarrow> DistributedModelRegistry" where
  "count_miss r = r\<lparr>stats := (stats r)\<lparr>cacheMisses := cacheMisses (stats r) + 1\<rparr>\<rparr>"

definition count_hit :: "jsval \<Rightarrow> DistributedModelRegistry \<Rightarrow> DistributedModelRegistry" where
  "count_hit cachedData r =
     (if js_prop cachedData ''cacheLevel'' = JStr ''L1''
      then r\<lparr>stats := (stats r)\<lparr>cacheHits_l1 := cacheHits_l1 (stats r) + 1\<rparr>\<rparr>
      else r\<lparr>stats := (stats r)\<lparr>cacheHits_l2 := cacheHits_l2 (stats r) + 1\<rparr>\<rparr>)"

text \<open>\<^verbatim>\<open>getCachedModels\<close>: \<open>Resolved None\<close> is the \<^verbatim>\<open>null\<close> it returns on a miss and from its
  \<^verbatim>\<open>catch\<close> block. The connection is mutated in place by the loop; the model writes it back
  under its tenant.\<close>

definition getCachedModels ::
  "string \<Rightarrow> DistributedModelRegistry \<Rightarrow>
   (string \<times> Model) list option promise \<times> DistributedModelRegistry" where
  "getCachedModels tenantId r =
     (case CM_get tenantId (cacheManager r) of
        (Inl e, c') \<Rightarrow> (Rejected e, r\<lparr>cacheManager := c'\<rparr>)
      | (Inr cachedData, c') \<Rightarrow>
          (let r1 = r\<lparr>cacheManager := c'\<rparr>
           in if \<not> truthy cachedData then (Resolved None, count_miss r1)
              else
                (case TCM_getConnection tenantId (connectionManager r1) of
                   (Pending, m') \<Rightarrow> (Pending, r1\<lparr>connectionManager := m'\<rparr>)
                 | (Rejected e, m') \<Rightarrow> (Resolved None, r1\<lparr>connectionManager := m'\<rparr>)
                 | (Resolved connection, m') \<Rightarrow>
                     (case Object_entries (js_prop cachedData ''models'') of
                        Inl e \<Rightarrow> (Resolved None, r1\<lparr>connectionManager := m'\<rparr>)
                      | Inr entries \<Rightarrow>
                          (case reconstruct (toCollectionName m') (registeredSchemas r1) entries
                                  connection [] of
                             (models, connection') \<Rightarrow>
                               (Resolved (Some models),
                                count_hit cachedData
                                  (r1\<lparr>connectionManager :=
                                        m'\<lparr>connections :=
                                             AList.update tenantId connection' (connections m')\<rparr>\<rparr>)))))))"

text \<open>The loop of \<^verbatim>\<open>createTenantModels\<close> over the catalogue; a failing \<^verbatim>\<open>createIndexes()\<close>
  ends it with the error.\<close>

fun bindSchemas ::
  "(string \<Rightarrow> string) \<Rightarrow> (string \<times> Schema) list \<Rightarrow> Connection \<Rightarrow> bool list \<Rightarrow>
   (string \<times> Model) list \<Rightarrow> (error + (string \<times> Model) list) \<times> Connection \<times> bool list" where
  "bindSchemas naming [] connection faults models = (Inr models, connection, faults)"
| "bindSchemas naming ((name, sc) # rest) connection faults models =
     (case map_of (conn_models connection) name of
        Some existing \<Rightarrow>
          bindSchemas naming rest connection faults (AList.update name existing models)
      | None \<Rightarrow>
          (case connection_model naming name sc connection of
             (model, connection') \<Rightarrow>
               (case faults of
                  [] \<Rightarrow> bindSchemas naming rest connection' [] (AList.update name model models)
                | False # faults' \<Rightarrow>
                    bindSchemas naming rest connection' faults' (AList.update name model models)
                | True # faults' \<Rightarrow> (Inl MongoError, connection', faults'))))"

definition createTenantModels ::
  "string \<Rightarrow> DistributedModelRegistry \<Rightarrow>
   (string \<times> Model) list promise \<times> DistributedModelRegistry" where
  "createTenantModels tenantId r =
     (case TCM_getConnection tenantId (connectionManager r) of
        (Pending, m') \<Rightarrow> (Pending, r\<lparr>connectionManager := m'\<rparr>)
      | (Rejected e, m') \<Rightarrow> (Rejected e, r\<lparr>connectionManager := m'\<rparr>)
      | (Resolved connection, m') \<Rightarrow>
          (case bindSchemas (toCollectionName m') (registeredSchemas r) connection
                  (indexFaults m') [] of
             (res, connection', faults') \<Rightarrow>
               (let r1 = r\<lparr>connectionManager :=
                             m'\<lparr>connections := AList.update tenantId connection' (connections m'),
                                indexFaults := faults'\<rparr>\<rparr>
                in case res of
                     Inl e \<Rightarrow> (Rejected e, r1)
                   | Inr models \<Rightarrow> (Resolved models, r1))))"

text \<open>\<^verbatim>\<open>cacheModels\<close> stores metadata only.\<close>

definition model_info :: "DistributedModelRegistry \<Rightarrow> string \<Rightarrow> Model \<Rightarrow> jsval" where
  "model_info r name model =
     JObj [(''name'', JStr name),
           (''collectionName'', JStr (collectionName model)),
           (''schemaRegistered'', JBool (isSchemaRegistered name r))]"

fun models_metadata ::
  "DistributedModelRegistry \<Rightarrow> (string \<times> Model) list \<Rightarrow> (string \<times> jsval) list \<Rightarrow>
   (string \<times> jsval) list" where
  "models_metadata r [] acc = acc"
| "models_metadata r ((name, model) # rest) acc =
     models_metadata r rest (AList.update name (model_info r name model) acc)"

definition cacheModels ::
  "string \<Rightarrow> (string \<times> Model) list \<Rightarrow> DistributedModelRegistry \<Rightarrow>
   unit promise \<times> DistributedModelRegistry" where
  "cacheModels tenantId models r =
     (let cacheData = JObj [(''tenantId'', JStr tenantId),
                            (''timestamp'', JNum (now (connectionManager r))),
                            (''models'', JObj (models_metadata r models []))]
      in case CM_set tenantId cacheData None (cacheManager r) of
           (Inl e, c') \<Rightarrow> (Rejected e, r\<lparr>cacheManager := c'\<rparr>)
         | (Inr u, c') \<Rightarrow> (Resolved (), r\<lparr>cacheManager := c'\<rparr>))"

definition count_creation :: "DistributedModelRegistry \<Rightarrow> DistributedModelRegistry" where
  "count_creation r = r\<lparr>stats := (stats r)\<lparr>modelCreations := modelCreations (stats r) + 1\<rparr>\<rparr>"

text \<open>The callback given to \<^verbatim>\<open>runExclusive\<close> in \<^verbatim>\<open>getModels\<close>.\<close>

definition materialize ::
  "string \<Rightarrow> DistributedModelRegistry \<Rightarrow>
   (string \<times> Model) list promise \<times> DistributedModelRegistry" where
  "materialize tenantId r =
     (case getCachedModels tenantId r of
        (Resolved (Some cachedModelsInMutex), r1) \<Rightarrow> (Resolved cachedModelsInMutex, r1)
      | (Resolved None, r1) \<Rightarrow>
          (case createTenantModels tenantId r1 of
             (Resolved models, r2) \<Rightarrow>
               (case cacheModels tenantId models r2 of
                  (Resolved u, r3) \<Rightarrow> (Resolved models, count_creation r3)
                | (Rejected e, r3) \<Rightarrow> (Rejected e, r3)
                | (Pending, r3) \<Rightarrow> (Pending, r3))
           | (Rejected e, r2) \<Rightarrow> (Rejected e, r2)
           | (Pending, r2) \<Rightarrow> (Pending, r2))
      | (Rejected e, r1) \<Rightarrow> (Rejected e, r1)
      | (Pending, r1) \<Rightarrow> (Pending, r1))"

text \<open>The \<^verbatim>\<open>try\<close> block of \<^verbatim>\<open>getModels\<close>, and \<^verbatim>\<open>getModels\<close> with its \<^verbatim>\<open>catch\<close>.\<close>

definition getModels_try ::
  "string \<Rightarrow> DistributedModelRegistry \<Rightarrow>
   (string \<times> Model) list promise \<times> DistributedModelRegistry" where
  "getModels_try tenantId r =
     (case getCachedModels tenantId r of
        (Resolved (Some cachedModels), r1) \<Rightarrow> (Resolved cachedModels, r1)
      | (Resolved None, r1) \<Rightarrow> runExclusive tenantId (materialize tenantId) (getMutex tenantId r1)
      | (Rejected e, r1) \<Rightarrow> (Rejected e, r1)
      | (Pending, r1) \<Rightarrow> (Pending, r1))"

definition count_error :: "DistributedModelRegistry \<Rightarrow> DistributedModelRegistry" where
  "count_error r = r\<lparr>stats := (stats r)\<lparr>errors := errors (stats r) + 1\<rparr>\<rparr>"

definition getModels ::
  "string \<Rightarrow> DistributedModelRegistry \<Rightarrow>
   (string \<times> Model) list promise \<times> DistributedModelRegistry" where
  "getModels tenantId r =
     (if tenantId = [] then (Rejected (Error ''Tenant ID is required''), r)
      else
        (case getModels_try tenantId r of
           (Rejected e, r') \<Rightarrow> (Rejected e, count_error r')
         | (Resolved models, r') \<Rightarrow> (Resolved models, r')
         | (Pending, r') \<Rightarrow> (Pending, r')))"

definition getModel ::
  "string \<Rightarrow> string \<Rightarrow> DistributedModelRegistry \<Rightarrow> Model promise \<times> DistributedModelRegistry" where
  "getModel tenantId name r =
     (case (if \<not> isSchemaRegistered name r
            then registerSchema name (SchemaInstance MasterDataSchema) r else Inr r) of
        Inl e \<Rightarrow> (Rejected e, r)
      | Inr r1 \<Rightarrow>
          (case getModels tenantId r1 of
             (Resolved models, r2) \<Rightarrow>
               (case map_of models name of
                  None \<Rightarrow>
                    (Rejected (Error (''Model '' @ name @ '' not found for tenant '' @ tenantId)), r2)
                | Some model \<Rightarrow> (Resolved model, r2))
           | (Rejected e, r2) \<Rightarrow> (Rejected e, r2)
           | (Pending, r2) \<Rightarrow> (Pending, r2)))"

text \<open>
  \<^verbatim>\<open>unregisterSchema\<close> starts \<^verbatim>\<open>invalidateAllCache()\<close> without awaiting it. What has run when
  \<^verbatim>\<open>unregisterSchema\<close> returns is the part of \<^verbatim>\<open>CacheManager.clear\<close> before its first
  \<^verbatim>\<open>await\<close>: tier 1 is emptied. The deletion of the Redis keys comes later, if at all.
\<close>

definition clear_l1 :: "CacheManager \<Rightarrow> CacheManager" where
  "clear_l1 c = c\<lparr>l1Cache := Map.empty\<rparr>"

definition unregisterSchema :: "string \<Rightarrow> DistributedModelRegistry \<Rightarrow> DistributedModelRegistry" where
  "unregisterSchema name r =
     (case map_of (registeredSchemas r) name of
        None \<Rightarrow> r
      | Some sc \<Rightarrow>
          r\<lparr>registeredSchemas := AList.delete name (registeredSchemas r),
            cacheManager := clear_l1 (cacheManager r)\<rparr>)"

record Health =
  status :: string
  check_l1 :: bool
  check_l2 :: bool
  check_connections :: bool
  health_error :: "error option"

definition healthCheck :: "DistributedModelRegistry \<Rightarrow> Health" where
  "healthCheck r =
     (let l2 = isL2Available (cacheManager r)
      in case TCM_getStats (connectionManager r) of
           Inl e \<Rightarrow>
             \<lparr>status = ''unhealthy'', check_l1 = True, check_l2 = l2, check_connections = True,
              health_error = Some e\<rparr>
         | Inr connectionStats \<Rightarrow>
             (let l1 = True;
                  conns = (0 \<le> totalConnections connectionStats)
              in \<lparr>status = (if \<not> l1 \<or> \<not> conns then ''unhealthy''
                            else if \<not> l2 then ''degraded'' else ''healthy''),
                  check_l1 = l1, check_l2 = l2, check_connections = conns,
                  health_error = None\<rparr>))"

text \<open>A run of \<^verbatim>\<open>getModels\<close> calls, one tenant after the other, with what each returned.\<close>

fun getModels_each ::
  "string list \<Rightarrow> DistributedModelRegistry \<Rightarrow> (string \<times> Model) list promise list" where
  "getModels_each [] r = []"
| "getModels_each (tenantId # rest) r =
     (case getModels tenantId r of (res, r') \<Rightarrow> res # getModels_each rest r')"

text \<open>Every tracked connection is connected.\<close>

definition tracked_connected :: "TenantConnectionManager \<Rightarrow> bool" where
  "tracked_connected m = (\<forall>entry \<in> set (connections m). readyState (snd entry) = 1)"

section \<open>The states of the scenarios\<close>

text \<open>A process that has just started: both caches empty, Redis connected, no connection
  open, nothing registered. Collections are named after their models here.\<close>

definition new_cache :: CacheManager where
  "new_cache =
     \<lparr>l1Cache = Map.empty, l2Client = True, isRedisConnected = True, l2Store = Map.empty,
      l2Faults = []\<rparr>"

definition new_connections :: TenantConnectionManager where
  "new_connections =
     \<lparr>connections = [], connectionTimestamps = [], now = 1700000000000, opens = [],
      indexFaults = [], toCollectionName = (\<lambda>name. name)\<rparr>"

definition new_registry :: DistributedModelRegistry where
  "new_registry =
     \<lparr>cacheManager = new_cache, connectionManager = new_connections, registeredSchemas = [],
      modelCreationLocks = [],
      stats = \<lparr>cacheHits_l1 = 0, cacheHits_l2 = 0, cacheMisses = 0, modelCreations = 0,
               errors = 0\<rparr>\<rparr>"

text \<open>The catalogue \<open>{User, Project}\<close>, and the registry after one \<^verbatim>\<open>getModels("acme")\<close>.\<close>

definition scenario_registry :: DistributedModelRegistry where
  "scenario_registry =
     new_registry\<lparr>registeredSchemas := [(''User'', Schema ''User''), (''Project'', Schema ''Project'')]\<rparr>"

definition after_first_call :: DistributedModelRegistry where
  "after_first_call = snd (getModels ''acme'' scenario_registry)"

definition after_second_call :: DistributedModelRegistry where
  "after_second_call = snd (getModels ''acme'' after_first_call)"


text \<open>A storage outage: the open of the database times out.\<close>

definition unreachable_registry :: DistributedModelRegistry where
  "unreachable_registry =
     scenario_registry\<lparr>connectionManager := new_connections\<lparr>opens := [OpenTimeout]\<rparr>\<rparr>"

text \<open>Redis disconnected; and, on top of that, a tracked connection whose recorded
  timestamp is not a date.\<close>

definition tier2_down_registry :: DistributedModelRegistry where
  "tier2_down_registry =
     scenario_registry\<lparr>cacheManager := new_cache\<lparr>isRedisConnected := False\<rparr>\<rparr>"

definition bad_timestamp_registry :: DistributedModelRegistry where
  "bad_timestamp_registry =
     tier2_down_registry
       \<lparr>connectionManager :=
          new_connections
            \<lparr>connections :=
               [(''acme'', \<lparr>dbName = ''tenant_acme'', readyState = 1, conn_models = [], emits = []\<rparr>)],
             connectionTimestamps := [(''acme'', 9000000000000000)]\<rparr>\<rparr>"

section \<open>Properties of the cache manager\<close>

lemma CM_get_result: "\<exists>v. fst (CM_get tenantId c) = Inr v"
  by (simp add: CM_get_def Let_def split: prod.splits sum.splits option.splits)

lemma CM_set_result: "fst (CM_set tenantId v ttl c) = Inr ()"
  by (simp add: CM_set_def Let_def split: prod.splits sum.splits)

lemma CM_get_not_Inl: "CM_get tenantId c \<noteq> (Inl e, c')"
  using CM_get_result[of tenantId c] by auto

lemma CM_set_not_Inl: "CM_set tenantId v ttl c \<noteq> (Inl e, c')"
  using CM_set_result[of tenantId v ttl c] by auto

lemma next_fault_fields:
  "l1Cache (snd (next_fault c)) = l1Cache c"
  "l2Client (snd (next_fault c)) = l2Client c"
  "isRedisConnected (snd (next_fault c)) = isRedisConnected c"
  "l2Store (snd (next_fault c)) = l2Store c"
  by (auto simp: next_fault_def split: list.splits)





lemma lru_set_idem: "lru_set (lru_set m k v) k v = lru_set m k v"
  by (simp add: lru_set_def)




lemmas cache_defs =
  generateKey_def redisConfig_keyPrefix_models_def appConfig_cache_l2_ttl_def lru_get_def
  lru_set_def next_fault_def l2Client_get_def l2Client_setEx_def get_l2_try_def CM_get_def
  set_l2_try_def CM_set_def JSON_stringify_def isL2Available_def clear_l1_def






section \<open>Properties of the connection manager\<close>

lemmas connection_defs =
  dbConfig_tenant_dbPrefix_def updateTimestamp_def next_open_def open_wait_def
  TCM_createConnection_def TCM_closeConnection_def TCM_getConnection_def toISOString_def
  getReadyStateString_def TCM_getStats_def

lemma TCM_closeConnection_frame:
  "opens (TCM_closeConnection tenantId m) = opens m"
  "map_of (connections (TCM_closeConnection tenantId m)) tenantId = None"
  by (auto simp add: TCM_closeConnection_def delete_conv' split: option.splits)

lemma TCM_createConnection_fails:
  assumes "opens m = outcome # rest" "outcome \<noteq> OpenConnected"
  shows "TCM_createConnection tenantId m =
         (Rejected (Error (''Failed to establish database connection for tenant '' @ tenantId)),
          m\<lparr>opens := rest\<rparr>)"
  using assms
  by (cases outcome) (simp_all add: TCM_createConnection_def next_open_def open_wait_def)




text \<open>
  The manager's own calls never leave a tracked connection in another state than
  connected: a connection is stored only after its \<^verbatim>\<open>'connected'\<close> event. From such a
  state \<^verbatim>\<open>getConnection\<close> always settles. A tracked connection is in state 2 only if the
  connection object itself has gone back to connecting.
\<close>

lemma set_update_subset: "set (AList.update k v al) \<subseteq> insert (k, v) (set al)"
  by (induction al) auto

lemma tracked_connected_new: "tracked_connected new_connections"
  by (simp add: tracked_connected_def new_connections_def)

lemma tracked_connected_updateTimestamp:
  "tracked_connected (updateTimestamp tenantId m) = tracked_connected m"
  by (simp add: tracked_connected_def updateTimestamp_def)

lemma tracked_connected_close:
  "tracked_connected m \<Longrightarrow> tracked_connected (TCM_closeConnection tenantId m)"
  by (auto simp add: tracked_connected_def TCM_closeConnection_def AList.delete_eq
      split: option.splits)

lemma tracked_connected_store:
  assumes "tracked_connected m" and "readyState connection = 1"
  shows "tracked_connected (m\<lparr>connections := AList.update tenantId connection (connections m)\<rparr>)"
proof -
  have "readyState (snd entry) = 1"
    if "entry \<in> set (AList.update tenantId connection (connections m))" for entry
  proof -
    from that set_update_subset[of tenantId connection "connections m"]
    have "entry = (tenantId, connection) \<or> entry \<in> set (connections m)" by auto
    with assms show ?thesis by (auto simp add: tracked_connected_def)
  qed
  then show ?thesis by (simp add: tracked_connected_def)
qed

lemma tracked_connected_opens:
  "tracked_connected (m\<lparr>opens := outs\<rparr>) = tracked_connected m"
  by (simp add: tracked_connected_def)

lemma tracked_connected_create:
  assumes "tracked_connected m"
  shows "tracked_connected (snd (TCM_createConnection tenantId m))"
proof -
  obtain outcome m1 where n: "next_open m = (outcome, m1)" by (cases "next_open m")
  with assms have m1: "tracked_connected m1"
    by (auto simp add: next_open_def tracked_connected_opens split: list.splits)
  show ?thesis
  proof (cases "open_wait tenantId outcome")
    case (Inl caught)
    with n m1 show ?thesis by (simp add: TCM_createConnection_def)
  next
    case (Inr u)
    with n show ?thesis
      using tracked_connected_store[OF m1, of
          "\<lparr>dbName = dbConfig_tenant_dbPrefix @ tenantId, readyState = 1, conn_models = [],
            emits = []\<rparr>" tenantId]
      by (simp add: TCM_createConnection_def Let_def tracked_connected_updateTimestamp)
  qed
qed

lemma tracked_connected_getConnection:
  assumes "tracked_connected m"
  shows "tracked_connected (snd (TCM_getConnection tenantId m))"
    and "fst (TCM_getConnection tenantId m) \<noteq> Pending"
proof -
  show "tracked_connected (snd (TCM_getConnection tenantId m))"
  proof (cases "map_of (connections m) tenantId")
    case None
    with assms show ?thesis by (simp add: TCM_getConnection_def tracked_connected_create)
  next
    case (Some connection)
    then have "(tenantId, connection) \<in> set (connections m)" by (rule map_of_SomeD)
    with assms have "readyState connection = 1" by (auto simp add: tracked_connected_def)
    with Some assms show ?thesis
      by (simp add: TCM_getConnection_def tracked_connected_updateTimestamp)
  qed
  show "fst (TCM_getConnection tenantId m) \<noteq> Pending"
  proof (cases "map_of (connections m) tenantId")
    case None
    then show ?thesis
      by (simp add: TCM_getConnection_def TCM_createConnection_def Let_def
          split: prod.splits sum.splits)
  next
    case (Some connection)
    then have "(tenantId, connection) \<in> set (connections m)" by (rule map_of_SomeD)
    with assms have "readyState connection = 1" by (auto simp add: tracked_connected_def)
    with Some show ?thesis by (simp add: TCM_getConnection_def)
  qed
qed




text \<open>
  \<^bold>\<open>C7.\<close> As stated the claim fails: an open that times out and an open that fails with an
  error reject \<^verbatim>\<open>getConnection\<close> with one and the same error, so the caller cannot tell
  them apart.
\<close>

theorem timeout_and_error_counterexample:
  "fst (TCM_getConnection ''acme'' (new_connections\<lparr>opens := [OpenTimeout]\<rparr>)) =
   fst (TCM_getConnection ''acme'' (new_connections\<lparr>opens := [OpenError MongoError]\<rparr>))"
  by (simp add: new_connections_def connection_defs)

text \<open>
  \<^bold>\<open>C7, amended.\<close> For every tenant that has no usable tracked connection (none, or one that
  is neither connected nor connecting), when the open does not connect, be it by the
  timeout or by any error, \<^verbatim>\<open>getConnection\<close> rejects with the error
  \<^verbatim>\<open>Failed to establish database connection for tenant T\<close>, and no connection is tracked for
  the tenant afterwards.
\<close>

theorem open_failures_surface_alike:
  assumes "opens m = outcome # rest" and "outcome \<noteq> OpenConnected"
    and "case map_of (connections m) tenantId of
           None \<Rightarrow> True
         | Some connection \<Rightarrow> readyState connection \<noteq> 1 \<and> readyState connection \<noteq> 2"
  shows "fst (TCM_getConnection tenantId m) =
           Rejected (Error (''Failed to establish database connection for tenant '' @ tenantId))
       \<and> map_of (connections (snd (TCM_getConnection tenantId m))) tenantId = None"
proof (cases "map_of (connections m) tenantId")
  case None
  then show ?thesis
    using TCM_createConnection_fails[OF assms(1,2), of tenantId]
    by (simp add: TCM_getConnection_def)
next
  case (Some connection)
  with assms(3) have bad: "readyState connection \<noteq> 1" "readyState connection \<noteq> 2"
    by simp_all
  have o: "opens (TCM_closeConnection tenantId m) = outcome # rest"
    using assms(1) by (simp add: TCM_closeConnection_frame)
  show ?thesis
    using Some bad TCM_createConnection_fails[OF o assms(2), of tenantId]
    by (simp add: TCM_getConnection_def TCM_closeConnection_frame)
qed

theorem open_failures_surface_alike_witness:
  "fst (TCM_getConnection ''acme'' (new_connections\<lparr>opens := [OpenTimeout]\<rparr>)) =
     Rejected (Error ''Failed to establish database connection for tenant acme'')
   \<and> fst (TCM_getConnection ''acme'' (new_connections\<lparr>opens := [OpenError MongoError]\<rparr>)) =
     Rejected (Error ''Failed to establish database connection for tenant acme'')"
  using open_failures_surface_alike[of "new_connections\<lparr>opens := [OpenTimeout]\<rparr>"
      OpenTimeout "[]" "''acme''"]
    open_failures_surface_alike[of "new_connections\<lparr>opens := [OpenError MongoError]\<rparr>"
      "OpenError MongoError" "[]" "''acme''"]
  by (simp add: new_connections_def)

section \<open>Properties of the registry\<close>

lemmas registry_defs =
  MasterDataSchema_def registerSchema_def isSchemaRegistered_def getMutex_def acquire_def
  release_def runExclusive_def connection_model_def count_miss_def count_hit_def
  count_creation_def count_error_def getCachedModels_def createTenantModels_def model_info_def
  cacheModels_def materialize_def getModels_try_def getModels_def getModel_def
  unregisterSchema_def healthCheck_def

lemmas scenario_defs =
  new_cache_def new_connections_def new_registry_def scenario_registry_def

subsection \<open>What the cache reads change\<close>

lemma l2Client_get_fields:
  "l1Cache (snd (l2Client_get key c)) = l1Cache c"
  "l2Store (snd (l2Client_get key c)) = l2Store c"
  "fst (l2Client_get key c) = Inr x \<Longrightarrow> x = l2Store c key"
  using next_fault_fields[of c]
  by (auto simp: l2Client_get_def split: prod.splits bool.splits)

lemma get_l2_try_l2Store: "l2Store (snd (get_l2_try key c)) = l2Store c"
  using l2Client_get_fields(2)[of key c]
  by (auto simp: get_l2_try_def split: prod.splits sum.splits option.splits)

lemma get_l2_try_l1:
  "l1Cache (snd (get_l2_try key c)) = l1Cache c \<or>
   (\<exists>v. l2Store c key = Some (JsonText v) \<and>
        l1Cache (snd (get_l2_try key c)) = lru_set (l1Cache c) key v)"
proof (cases "l2Client_get key c")
  case (Pair res c')
  have c': "l1Cache c' = l1Cache c" using l2Client_get_fields(1)[of key c] Pair by simp
  show ?thesis
  proof (cases res)
    case (Inl e)
    with Pair c' show ?thesis by (simp add: get_l2_try_def)
  next
    case (Inr x)
    then have x: "x = l2Store c key" using l2Client_get_fields(3)[of key c x] Pair by simp
    show ?thesis
    proof (cases x)
      case None
      with Pair Inr c' show ?thesis by (simp add: get_l2_try_def)
    next
      case (Some s)
      then have st: "l2Store c key = Some s" using x by simp
      have g: "l2Client_get key c = (Inr (Some s), c')" using Pair Inr Some by simp
      show ?thesis
        by (cases s) (simp_all add: get_l2_try_def g st c')
    qed
  qed
qed

lemma CM_get_l2Store: "l2Store (snd (CM_get tenantId c)) = l2Store c"
  using get_l2_try_l2Store[of "generateKey tenantId" c]
  by (auto simp: CM_get_def Let_def split: prod.splits sum.splits option.splits)

lemma CM_get_l1:
  "l1Cache (snd (CM_get tenantId c)) = l1Cache c \<or>
   (\<exists>v. l2Store c (generateKey tenantId) = Some (JsonText v) \<and>
        l1Cache (snd (CM_get tenantId c)) = lru_set (l1Cache c) (generateKey tenantId) v)"
  using get_l2_try_l1[of "generateKey tenantId" c]
  by (auto simp: CM_get_def Let_def split: prod.splits sum.splits option.splits)

lemma two_reads_l2Store:
  "l2Store (snd (CM_get tenantId (snd (CM_get tenantId c)))) = l2Store c"
  by (simp add: CM_get_l2Store)

lemma two_reads_l1:
  "l1Cache (snd (CM_get tenantId (snd (CM_get tenantId c)))) = l1Cache c \<or>
   (\<exists>v. l2Store c (generateKey tenantId) = Some (JsonText v) \<and>
        l1Cache (snd (CM_get tenantId (snd (CM_get tenantId c)))) =
          lru_set (l1Cache c) (generateKey tenantId) v)"
  using CM_get_l1[of tenantId c] CM_get_l1[of tenantId "snd (CM_get tenantId c)"]
    CM_get_l2Store[of tenantId c]
  by (auto simp add: lru_set_idem)

subsection \<open>What each step of \<^verbatim>\<open>getModels\<close> leaves alone\<close>

lemma getCachedModels_cache:
  "cacheManager (snd (getCachedModels tenantId r)) = snd (CM_get tenantId (cacheManager r))"
  by (simp add: getCachedModels_def Let_def count_miss_def count_hit_def
      split: prod.splits sum.splits promise.splits)

lemma getCachedModels_frame:
  "registeredSchemas (snd (getCachedModels tenantId r)) = registeredSchemas r"
  "modelCreationLocks (snd (getCachedModels tenantId r)) = modelCreationLocks r"
  "errors (stats (snd (getCachedModels tenantId r))) = errors (stats r)"
  "modelCreations (stats (snd (getCachedModels tenantId r))) = modelCreations (stats r)"
  by (simp_all add: getCachedModels_def Let_def count_miss_def count_hit_def
      split: prod.splits sum.splits promise.splits)

lemma getCachedModels_pair: "getCachedModels tenantId r \<noteq> (Rejected e, r')"
  by (auto simp add: getCachedModels_def Let_def CM_get_not_Inl
      split: prod.splits sum.splits promise.splits)

lemma createTenantModels_frame:
  "cacheManager (snd (createTenantModels tenantId r)) = cacheManager r"
  "registeredSchemas (snd (createTenantModels tenantId r)) = registeredSchemas r"
  "modelCreationLocks (snd (createTenantModels tenantId r)) = modelCreationLocks r"
  "stats (snd (createTenantModels tenantId r)) = stats r"
  by (simp_all add: createTenantModels_def Let_def split: prod.splits sum.splits promise.splits)

lemma cacheModels_frame:
  "registeredSchemas (snd (cacheModels tenantId models r)) = registeredSchemas r"
  "modelCreationLocks (snd (cacheModels tenantId models r)) = modelCreationLocks r"
  "stats (snd (cacheModels tenantId models r)) = stats r"
  "connectionManager (snd (cacheModels tenantId models r)) = connectionManager r"
  by (simp_all add: cacheModels_def Let_def split: prod.splits sum.splits)

lemma cacheModels_Resolved: "fst (cacheModels tenantId models r) = Resolved ()"
  by (simp add: cacheModels_def Let_def CM_set_not_Inl split: prod.splits sum.splits)

lemma cacheModels_pair:
  "cacheModels tenantId models r \<noteq> (Rejected e, r')"
  "cacheModels tenantId models r \<noteq> (Pending, r')"
  using cacheModels_Resolved[of tenantId models r] by auto

lemma getMutex_frame:
  "cacheManager (getMutex tenantId r) = cacheManager r"
  "stats (getMutex tenantId r) = stats r"
  "registeredSchemas (getMutex tenantId r) = registeredSchemas r"
  "connectionManager (getMutex tenantId r) = connectionManager r"
  by (simp_all add: getMutex_def split: option.splits)

lemma getMutex_held:
  "map_of (modelCreationLocks (getMutex tenantId r)) tenantId = Some True \<longleftrightarrow>
   map_of (modelCreationLocks r) tenantId = Some True"
  by (simp add: getMutex_def update_conv' split: option.splits)

lemma acquire_frame:
  "cacheManager (acquire tenantId r) = cacheManager r"
  "stats (acquire tenantId r) = stats r"
  "registeredSchemas (acquire tenantId r) = registeredSchemas r"
  "connectionManager (acquire tenantId r) = connectionManager r"
  by (simp_all add: acquire_def)

lemma release_frame:
  "cacheManager (release tenantId r) = cacheManager r"
  "stats (release tenantId r) = stats r"
  "registeredSchemas (release tenantId r) = registeredSchemas r"
  "connectionManager (release tenantId r) = connectionManager r"
  by (simp_all add: release_def)

lemma count_error_frame:
  "cacheManager (count_error r) = cacheManager r"
  "errors (stats (count_error r)) = errors (stats r) + 1"
  "modelCreations (stats (count_error r)) = modelCreations (stats r)"
  "registeredSchemas (count_error r) = registeredSchemas r"
  by (simp_all add: count_error_def)

lemma count_creation_frame:
  "cacheManager (count_creation r) = cacheManager r"
  "registeredSchemas (count_creation r) = registeredSchemas r"
  by (simp_all add: count_creation_def)

subsection \<open>Tracked connections stay connected\<close>

text \<open>No call of \<^verbatim>\<open>getModels\<close> leaves a tracked connection in another state than
  connected, if none was before.\<close>

lemma getConnection_resolved_connected:
  assumes "tracked_connected m" and "TCM_getConnection tenantId m = (Resolved connection, m')"
  shows "readyState connection = 1"
proof (cases "map_of (connections m) tenantId")
  case None
  with assms(2) show ?thesis
    by (auto simp add: TCM_getConnection_def TCM_createConnection_def Let_def
        split: prod.splits sum.splits)
next
  case (Some tracked)
  then have "(tenantId, tracked) \<in> set (connections m)" by (rule map_of_SomeD)
  with assms(1) have "readyState tracked = 1" by (auto simp add: tracked_connected_def)
  with Some assms(2) show ?thesis by (auto simp add: TCM_getConnection_def)
qed

lemma reconstruct_readyState:
  "readyState (snd (reconstruct naming regs entries connection models)) = readyState connection"
  by (induction naming regs entries connection models rule: reconstruct.induct)
     (auto simp add: connection_model_def Let_def split: option.splits prod.splits)

lemma bindSchemas_readyState:
  "readyState (fst (snd (bindSchemas naming regs connection faults models))) = readyState connection"
  by (induction naming regs connection faults models rule: bindSchemas.induct)
     (auto simp add: connection_model_def Let_def split: option.splits prod.splits list.splits bool.splits)

lemma tracked_connected_indexFaults:
  "tracked_connected (m\<lparr>connections := cs, indexFaults := fs\<rparr>) = tracked_connected (m\<lparr>connections := cs\<rparr>)"
  by (simp add: tracked_connected_def)

lemma getCachedModels_tracked:
  assumes "tracked_connected (connectionManager r)"
  shows "tracked_connected (connectionManager (snd (getCachedModels tenantId r)))"
proof -
  obtain res c' where g: "CM_get tenantId (cacheManager r) = (res, c')"
    by (cases "CM_get tenantId (cacheManager r)")
  obtain pr m' where t: "TCM_getConnection tenantId (connectionManager r) = (pr, m')"
    by (cases "TCM_getConnection tenantId (connectionManager r)")
  have m': "tracked_connected m'"
    using tracked_connected_getConnection(1)[OF assms, of tenantId] t by simp
  have st: "tracked_connected (m'\<lparr>connections := AList.update tenantId connection' (connections m')\<rparr>)"
    if "pr = Resolved connection"
      and "reconstruct naming regs entries connection [] = (ms, connection')"
    for naming regs entries connection ms connection'
  proof -
    have "readyState connection = 1"
      using getConnection_resolved_connected[OF assms] t that(1) by simp
    then have "readyState connection' = 1"
      using reconstruct_readyState[of naming regs entries connection "[]"] that(2) by simp
    then show ?thesis by (rule tracked_connected_store[OF m'])
  qed
  show ?thesis
    using g t assms m'
    by (auto simp add: getCachedModels_def Let_def count_miss_def count_hit_def
        intro: st split: prod.splits sum.splits promise.splits)
qed

lemma createTenantModels_tracked:
  assumes "tracked_connected (connectionManager r)"
  shows "tracked_connected (connectionManager (snd (createTenantModels tenantId r)))"
proof -
  obtain pr m' where t: "TCM_getConnection tenantId (connectionManager r) = (pr, m')"
    by (cases "TCM_getConnection tenantId (connectionManager r)")
  have m': "tracked_connected m'"
    using tracked_connected_getConnection(1)[OF assms, of tenantId] t by simp
  have st: "tracked_connected (m'\<lparr>connections := AList.update tenantId connection' (connections m'),
                                  indexFaults := faults'\<rparr>)"
    if "pr = Resolved connection"
      and "bindSchemas naming regs connection faults [] = (res, connection', faults')"
    for naming regs connection faults res connection' faults'
  proof -
    have "readyState connection = 1"
      using getConnection_resolved_connected[OF assms] t that(1) by simp
    then have "readyState connection' = 1"
      using bindSchemas_readyState[of naming regs connection faults "[]"] that(2) by simp
    then show ?thesis
      using tracked_connected_store[OF m'] by (simp add: tracked_connected_indexFaults)
  qed
  show ?thesis
    using t assms m'
    by (auto simp add: createTenantModels_def Let_def
        intro: st split: prod.splits sum.splits promise.splits)
qed

lemma materialize_tracked:
  assumes "tracked_connected (connectionManager r)"
  shows "tracked_connected (connectionManager (snd (materialize tenantId r)))"
proof -
  obtain res1 r1 where g: "getCachedModels tenantId r = (res1, r1)"
    by (cases "getCachedModels tenantId r")
  then have r1: "tracked_connected (connectionManager r1)"
    using getCachedModels_tracked[OF assms, of tenantId] by simp
  obtain res2 r2 where c: "createTenantModels tenantId r1 = (res2, r2)"
    by (cases "createTenantModels tenantId r1")
  then have r2: "tracked_connected (connectionManager r2)"
    using createTenantModels_tracked[OF r1, of tenantId] by simp
  have r3: "cacheModels tenantId ms r2 = (res3, r3) \<Longrightarrow> tracked_connected (connectionManager r3)"
    for ms res3 r3
    using cacheModels_frame(4)[of tenantId ms r2] r2 by simp
  show ?thesis
    using g c r1 r2
    by (auto simp add: materialize_def count_creation_def dest: r3
        split: promise.splits option.splits prod.splits)
qed

lemma getModels_tracked:
  assumes "tracked_connected (connectionManager r)"
  shows "tracked_connected (connectionManager (snd (getModels tenantId r)))"
proof -
  obtain res1 r1 where g: "getCachedModels tenantId r = (res1, r1)"
    by (cases "getCachedModels tenantId r")
  then have r1: "tracked_connected (connectionManager (acquire tenantId (getMutex tenantId r1)))"
    using getCachedModels_tracked[OF assms, of tenantId]
    by (simp add: acquire_frame getMutex_frame)
  have m: "tracked_connected (connectionManager
            (snd (materialize tenantId (acquire tenantId (getMutex tenantId r1)))))"
    by (rule materialize_tracked[OF r1])
  have "tracked_connected (connectionManager (snd (getModels_try tenantId r)))"
    using g r1 m
    by (auto simp add: getModels_try_def runExclusive_def release_frame getMutex_frame
        acquire_frame split: promise.splits option.splits prod.splits)
  with assms show ?thesis
    by (auto simp add: getModels_def count_error_def split: promise.splits prod.splits)
qed

subsection \<open>A failed materialization\<close>

text \<open>\<^verbatim>\<open>getModels\<close> rejects for one reason only (the empty tenant id apart): the
  materialization inside the mutex reached \<^verbatim>\<open>createTenantModels\<close>, which failed.\<close>

lemma materialize_Rejected:
  assumes "materialize tenantId r = (Rejected e, r')"
  shows "fst (getCachedModels tenantId r) = Resolved None"
    and "createTenantModels tenantId (snd (getCachedModels tenantId r)) = (Rejected e, r')"
  using assms
  by (auto simp add: materialize_def cacheModels_pair getCachedModels_pair
      split: promise.splits option.splits prod.splits)

lemma getModels_try_Rejected:
  assumes "getModels_try tenantId r = (Rejected e, r')"
  shows "fst (getCachedModels tenantId r) = Resolved None"
    and "map_of (modelCreationLocks (snd (getCachedModels tenantId r))) tenantId \<noteq> Some True"
    and "\<exists>r3. materialize tenantId
                (acquire tenantId (getMutex tenantId (snd (getCachedModels tenantId r))))
              = (Rejected e, r3) \<and> r' = release tenantId r3"
  using assms
  by (auto simp add: getModels_try_def runExclusive_def getCachedModels_pair getMutex_def
      split: promise.splits option.splits prod.splits if_splits)

lemma getModels_Rejected:
  assumes "tenantId \<noteq> []" and "getModels tenantId r = (Rejected e, r')"
  shows "\<exists>r2 r3. createTenantModels tenantId r2 = (Rejected e, r3)
           \<and> r' = count_error (release tenantId r3)"
proof -
  from assms obtain r'' where t: "getModels_try tenantId r = (Rejected e, r'')"
    and r': "r' = count_error r''"
    by (auto simp add: getModels_def split: promise.splits prod.splits)
  from getModels_try_Rejected(3)[OF t] obtain r3 where
    m: "materialize tenantId
          (acquire tenantId (getMutex tenantId (snd (getCachedModels tenantId r))))
        = (Rejected e, r3)" and r'': "r'' = release tenantId r3"
    by blast
  from materialize_Rejected(2)[OF m] r' r'' show ?thesis by blast
qed

text \<open>
  \<^bold>\<open>C5.\<close> For every tenant and every state: when both lookups give nothing (a miss, or an
  entry that cannot be reconstructed), the mutex is free and \<^verbatim>\<open>createTenantModels\<close> fails,
  at the connection or at a schema bind, with an error \<open>e\<close>, then \<^verbatim>\<open>getModels\<close> rejects with
  \<open>e\<close>, the error counter goes up by one, the materialization counter stays, and the cache
  manager is exactly as the two lookups before the materialization left it:
  \<^verbatim>\<open>cacheModels\<close> is not reached, the failed materialization writes nothing, and no partial
  entry exists. Tier 2 is as it was before the call; tier 1 is as it was before the call,
  or holds the complete entry of tier 2 that a lookup read through; it is as before whenever
  tier 2 holds nothing for the tenant.
\<close>

theorem failed_materialization:
  assumes t: "tenantId \<noteq> []"
    and g1: "getCachedModels tenantId r = (Resolved None, r1)"
    and free: "map_of (modelCreationLocks r1) tenantId \<noteq> Some True"
    and g2: "getCachedModels tenantId (acquire tenantId (getMutex tenantId r1)) = (Resolved None, r2)"
    and c: "createTenantModels tenantId r2 = (Rejected e, r3)"
  shows "fst (getModels tenantId r) = Rejected e
     \<and> errors (stats (snd (getModels tenantId r))) = errors (stats r) + 1
     \<and> modelCreations (stats (snd (getModels tenantId r))) = modelCreations (stats r)
     \<and> cacheManager (snd (getModels tenantId r)) = cacheManager r2
     \<and> cacheManager (snd (getModels tenantId r)) =
         snd (CM_get tenantId (snd (CM_get tenantId (cacheManager r))))
     \<and> l2Store (cacheManager (snd (getModels tenantId r))) = l2Store (cacheManager r)
     \<and> (l1Cache (cacheManager (snd (getModels tenantId r))) = l1Cache (cacheManager r) \<or>
         (\<exists>v. l2Store (cacheManager r) (generateKey tenantId) = Some (JsonText v) \<and>
              l1Cache (cacheManager (snd (getModels tenantId r))) =
                lru_set (l1Cache (cacheManager r)) (generateKey tenantId) v))
     \<and> (l2Store (cacheManager r) (generateKey tenantId) = None \<longrightarrow>
         l1Cache (cacheManager (snd (getModels tenantId r))) = l1Cache (cacheManager r))"
proof -
  have m: "materialize tenantId (acquire tenantId (getMutex tenantId r1)) = (Rejected e, r3)"
    using g2 c by (simp add: materialize_def)
  have "getModels_try tenantId r = (Rejected e, release tenantId r3)"
    using g1 free m by (simp add: getModels_try_def runExclusive_def getMutex_held)
  then have gm: "getModels tenantId r = (Rejected e, count_error (release tenantId r3))"
    using t by (simp add: getModels_def)
  have e1: "errors (stats r1) = errors (stats r)" "modelCreations (stats r1) = modelCreations (stats r)"
    using getCachedModels_frame(3,4)[of tenantId r] g1 by simp_all
  have e2: "errors (stats r2) = errors (stats r1)" "modelCreations (stats r2) = modelCreations (stats r1)"
    using getCachedModels_frame(3,4)[of tenantId "acquire tenantId (getMutex tenantId r1)"] g2
    by (simp_all add: acquire_frame getMutex_frame)
  have e3: "stats r3 = stats r2" "cacheManager r3 = cacheManager r2"
    using createTenantModels_frame(1,4)[of tenantId r2] c by simp_all
  have c1: "cacheManager r1 = snd (CM_get tenantId (cacheManager r))"
    using getCachedModels_cache[of tenantId r] g1 by simp
  have c2: "cacheManager r2 = snd (CM_get tenantId (cacheManager r1))"
    using getCachedModels_cache[of tenantId "acquire tenantId (getMutex tenantId r1)"] g2
    by (simp add: acquire_frame getMutex_frame)
  have cache: "cacheManager (snd (getModels tenantId r)) = cacheManager r2"
    using gm e3 by (simp add: count_error_frame release_frame)
  have reads: "cacheManager r2 = snd (CM_get tenantId (snd (CM_get tenantId (cacheManager r))))"
    using c1 c2 by simp
  have l1: "l1Cache (cacheManager r2) = l1Cache (cacheManager r) \<or>
         (\<exists>v. l2Store (cacheManager r) (generateKey tenantId) = Some (JsonText v) \<and>
              l1Cache (cacheManager r2) =
                lru_set (l1Cache (cacheManager r)) (generateKey tenantId) v)"
    using two_reads_l1[of tenantId "cacheManager r"] reads by simp
  have l2: "l2Store (cacheManager r2) = l2Store (cacheManager r)"
    using two_reads_l2Store[of tenantId "cacheManager r"] reads by simp
  from l1 have none: "l2Store (cacheManager r) (generateKey tenantId) = None \<longrightarrow>
         l1Cache (cacheManager r2) = l1Cache (cacheManager r)"
    by auto
  have "fst (getModels tenantId r) = Rejected e"
    and "errors (stats (snd (getModels tenantId r))) = errors (stats r) + 1"
    and "modelCreations (stats (snd (getModels tenantId r))) = modelCreations (stats r)"
    using gm e1 e2 e3 by (simp_all add: count_error_frame release_frame)
  moreover note cache
  moreover have "cacheManager (snd (getModels tenantId r)) =
         snd (CM_get tenantId (snd (CM_get tenantId (cacheManager r))))"
    using cache reads by simp
  moreover have "l2Store (cacheManager (snd (getModels tenantId r))) = l2Store (cacheManager r)"
    using cache l2 by simp
  moreover have "l1Cache (cacheManager (snd (getModels tenantId r))) = l1Cache (cacheManager r) \<or>
         (\<exists>v. l2Store (cacheManager r) (generateKey tenantId) = Some (JsonText v) \<and>
              l1Cache (cacheManager (snd (getModels tenantId r))) =
                lru_set (l1Cache (cacheManager r)) (generateKey tenantId) v)"
    using cache l1 by simp
  moreover have "l2Store (cacheManager r) (generateKey tenantId) = None \<longrightarrow>
         l1Cache (cacheManager (snd (getModels tenantId r))) = l1Cache (cacheManager r)"
    using cache none by simp
  ultimately show ?thesis by blast
qed

theorem failed_materialization_witness:
  "fst (getModels ''acme'' unreachable_registry) =
     Rejected (Error ''Failed to establish database connection for tenant acme'')
   \<and> errors (stats (snd (getModels ''acme'' unreachable_registry))) = 1
   \<and> modelCreations (stats (snd (getModels ''acme'' unreachable_registry))) = 0
   \<and> l1Cache (cacheManager (snd (getModels ''acme'' unreachable_registry))) = Map.empty
   \<and> l2Store (cacheManager (snd (getModels ''acme'' unreachable_registry))) = Map.empty"
proof -
  let ?r = unreachable_registry
  let ?r1 = "snd (getCachedModels ''acme'' ?r)"
  let ?r2 = "snd (getCachedModels ''acme'' (acquire ''acme'' (getMutex ''acme'' ?r1)))"
  let ?r3 = "snd (createTenantModels ''acme'' ?r2)"
  let ?e = "Error ''Failed to establish database connection for tenant acme''"
  have h1: "getCachedModels ''acme'' ?r = (Resolved None, ?r1)"
    by (simp add: unreachable_registry_def cache_defs connection_defs registry_defs
        scenario_defs Let_def)
  have h2: "map_of (modelCreationLocks ?r1) ''acme'' \<noteq> Some True"
    by (simp add: unreachable_registry_def cache_defs connection_defs registry_defs
        scenario_defs Let_def)
  have h3: "getCachedModels ''acme'' (acquire ''acme'' (getMutex ''acme'' ?r1)) = (Resolved None, ?r2)"
    by (simp add: unreachable_registry_def cache_defs connection_defs registry_defs
        scenario_defs Let_def)
  have h4: "createTenantModels ''acme'' ?r2 = (Rejected ?e, ?r3)"
    by (simp add: unreachable_registry_def cache_defs connection_defs registry_defs
        scenario_defs Let_def)
  have st: "errors (stats ?r) = 0" "modelCreations (stats ?r) = 0"
    "l1Cache (cacheManager ?r) = Map.empty" "l2Store (cacheManager ?r) = Map.empty"
    by (simp_all add: unreachable_registry_def scenario_defs)
  note fm = failed_materialization[OF _ h1 h2 h3 h4]
  note res = fm[THEN conjunct1]
  note err = fm[THEN conjunct2, THEN conjunct1]
  note cre = fm[THEN conjunct2, THEN conjunct2, THEN conjunct1]
  note l2 = fm[THEN conjunct2, THEN conjunct2, THEN conjunct2, THEN conjunct2, THEN conjunct2,
      THEN conjunct1]
  note l1 = fm[THEN conjunct2, THEN conjunct2, THEN conjunct2, THEN conjunct2, THEN conjunct2,
      THEN conjunct2, THEN conjunct2]
  from l1 st have "l1Cache (cacheManager (snd (getModels ''acme'' ?r))) = Map.empty"
    by simp
  with res err cre l2 st show ?thesis by simp
qed

subsection \<open>Names outside the catalogue\<close>

lemma reconstruct_unregistered:
  "map_of regs n = None \<Longrightarrow> map_of models n = None \<Longrightarrow>
   map_of (fst (reconstruct naming regs entries connection models)) n = None"
proof (induction entries arbitrary: connection models)
  case Nil
  then show ?case by simp
next
  case (Cons entry entries)
  obtain name modelInfo where entry: "entry = (name, modelInfo)" by (cases entry)
  show ?case
  proof (cases "map_of regs name")
    case None
    with Cons entry show ?thesis by simp
  next
    case (Some sc)
    with Cons.prems have "name \<noteq> n" by auto
    with Cons Some entry show ?thesis
      by (simp add: update_conv' split: option.splits prod.splits)
  qed
qed

lemma bindSchemas_unregistered:
  "n \<notin> fst ` set regs \<Longrightarrow> map_of models n = None \<Longrightarrow>
   fst (bindSchemas naming regs connection faults models) = Inr models' \<Longrightarrow>
   map_of models' n = None"
proof (induction regs arbitrary: connection faults models)
  case Nil
  then show ?case by simp
next
  case (Cons entry regs)
  obtain name sc where entry: "entry = (name, sc)" by (cases entry)
  with Cons.prems have ne: "name \<noteq> n" and rest: "n \<notin> fst ` set regs" by auto
  show ?case
  proof (cases "map_of (conn_models connection) name")
    case (Some existing)
    with Cons.prems entry ne show ?thesis
      using Cons.IH[OF rest, of "AList.update name existing models" connection faults]
      by (simp add: update_conv')
  next
    case None
    obtain model connection' where
      cm: "connection_model naming name sc connection = (model, connection')"
      by (cases "connection_model naming name sc connection")
    have upd: "map_of (AList.update name model models) n = None"
      using Cons.prems(2) ne by (simp add: update_conv')
    show ?thesis
    proof (cases faults)
      case Nil
      with Cons.prems(3) entry None cm show ?thesis
        using Cons.IH[OF rest upd, of connection' "[]"] by simp
    next
      case (Cons f faults')
      with Cons.prems(3) entry None cm show ?thesis
        using Cons.IH[OF rest upd, of connection' faults'] by (cases f) simp_all
    qed
  qed
qed

lemma reconstruct_unregistered_pair:
  "reconstruct naming regs entries connection [] = (models, connection') \<Longrightarrow>
   map_of regs n = None \<Longrightarrow> map_of models n = None"
  using reconstruct_unregistered[of regs n "[]" naming entries connection] by simp

lemma bindSchemas_unregistered_pair:
  "bindSchemas naming regs connection faults [] = (Inr models, connection', faults') \<Longrightarrow>
   map_of regs n = None \<Longrightarrow> map_of models n = None"
  using bindSchemas_unregistered[of n regs "[]" naming connection faults models]
  by (simp add: map_of_eq_None_iff)

lemma getCachedModels_unregistered:
  "map_of (registeredSchemas r) n = None \<Longrightarrow>
   getCachedModels tenantId r = (Resolved (Some models), r') \<Longrightarrow> map_of models n = None"
  by (auto simp add: getCachedModels_def Let_def dest: reconstruct_unregistered_pair
      split: prod.splits sum.splits promise.splits if_splits)

lemma createTenantModels_unregistered:
  "map_of (registeredSchemas r) n = None \<Longrightarrow>
   createTenantModels tenantId r = (Resolved models, r') \<Longrightarrow> map_of models n = None"
  by (auto simp add: createTenantModels_def Let_def dest: bindSchemas_unregistered_pair
      split: prod.splits sum.splits promise.splits if_splits)

lemma materialize_unregistered:
  assumes "map_of (registeredSchemas r) n = None"
    and "materialize tenantId r = (Resolved models, r')"
  shows "map_of models n = None"
proof -
  obtain res1 r1 where g: "getCachedModels tenantId r = (res1, r1)"
    by (cases "getCachedModels tenantId r")
  then have regs1: "map_of (registeredSchemas r1) n = None"
    using getCachedModels_frame(1)[of tenantId r] assms(1) by simp
  show ?thesis
  proof (cases res1)
    case (Resolved cached)
    show ?thesis
    proof (cases cached)
      case (Some ms)
      with Resolved g assms(2) have "ms = models" by (simp add: materialize_def)
      with Some Resolved g assms(1) show ?thesis
        using getCachedModels_unregistered[of r n tenantId models r1] by simp
    next
      case None
      obtain res2 r2 where c: "createTenantModels tenantId r1 = (res2, r2)"
        by (cases "createTenantModels tenantId r1")
      with None Resolved g assms(2) have "res2 = Resolved models"
        by (auto simp add: materialize_def split: promise.splits prod.splits)
      with c regs1 show ?thesis
        using createTenantModels_unregistered[of r1 n tenantId models r2] by simp
    qed
  next
    case (Rejected e)
    with g assms(2) show ?thesis by (simp add: materialize_def)
  next
    case Pending
    with g assms(2) show ?thesis by (simp add: materialize_def)
  qed
qed

lemma materialize_regs: "registeredSchemas (snd (materialize tenantId r)) = registeredSchemas r"
proof -
  obtain res1 r1 where g: "getCachedModels tenantId r = (res1, r1)"
    by (cases "getCachedModels tenantId r")
  then have r1: "registeredSchemas r1 = registeredSchemas r"
    using getCachedModels_frame(1)[of tenantId r] by simp
  obtain res2 r2 where c: "createTenantModels tenantId r1 = (res2, r2)"
    by (cases "createTenantModels tenantId r1")
  then have r2: "registeredSchemas r2 = registeredSchemas r1"
    using createTenantModels_frame(2)[of tenantId r1] by simp
  have r3: "cacheModels tenantId ms r2 = (res3, r3) \<Longrightarrow> registeredSchemas r3 = registeredSchemas r2"
    for ms res3 r3
    using cacheModels_frame(1)[of tenantId ms r2] by simp
  show ?thesis
    using g c r1 r2
    by (auto simp add: materialize_def count_creation_frame dest: r3
        split: promise.splits option.splits prod.splits)
qed

lemma getModels_try_regs:
  "registeredSchemas (snd (getModels_try tenantId r)) = registeredSchemas r"
proof -
  obtain res1 r1 where g: "getCachedModels tenantId r = (res1, r1)"
    by (cases "getCachedModels tenantId r")
  then have r1: "registeredSchemas r1 = registeredSchemas r"
    using getCachedModels_frame(1)[of tenantId r] by simp
  have m: "registeredSchemas (snd (materialize tenantId (acquire tenantId (getMutex tenantId r1))))
            = registeredSchemas r"
    by (simp add: materialize_regs acquire_frame getMutex_frame r1)
  show ?thesis
    using g r1 m
    by (auto simp add: getModels_try_def runExclusive_def release_frame getMutex_frame
        split: promise.splits option.splits prod.splits)
qed

lemma getModels_regs: "registeredSchemas (snd (getModels tenantId r)) = registeredSchemas r"
  using getModels_try_regs[of tenantId r]
  by (auto simp add: getModels_def count_error_frame split: promise.splits prod.splits)

lemma getModels_try_unregistered:
  assumes "map_of (registeredSchemas r) n = None"
    and "getModels_try tenantId r = (Resolved models, r')"
  shows "map_of models n = None"
proof -
  obtain res1 r1 where g: "getCachedModels tenantId r = (res1, r1)"
    by (cases "getCachedModels tenantId r")
  then have regs1: "map_of (registeredSchemas (acquire tenantId (getMutex tenantId r1))) n = None"
    using getCachedModels_frame(1)[of tenantId r] assms(1)
    by (simp add: acquire_frame getMutex_frame)
  show ?thesis
  proof (cases "res1 = Resolved None")
    case False
    with g assms(2) have "res1 = Resolved (Some models)"
      by (auto simp add: getModels_try_def split: promise.splits option.splits)
    with g assms(1) show ?thesis
      using getCachedModels_unregistered[of r n tenantId models r1] by simp
  next
    case True
    with g assms(2) obtain r3 where
      "materialize tenantId (acquire tenantId (getMutex tenantId r1)) = (Resolved models, r3)"
      by (auto simp add: getModels_try_def runExclusive_def
          split: promise.splits prod.splits if_splits)
    with regs1 show ?thesis
      using materialize_unregistered by blast
  qed
qed

lemma getModels_unregistered:
  "map_of (registeredSchemas r) n = None \<Longrightarrow>
   getModels tenantId r = (Resolved models, r') \<Longrightarrow> map_of models n = None"
  using getModels_try_unregistered[of r n tenantId models]
  by (auto simp add: getModels_def split: promise.splits prod.splits if_splits)

lemma getModels_each_unregistered:
  "map_of (registeredSchemas r) n = None \<Longrightarrow>
   Resolved models \<in> set (getModels_each tenants r) \<Longrightarrow> map_of models n = None"
proof (induction tenants arbitrary: r)
  case Nil
  then show ?case by simp
next
  case (Cons tenantId tenants)
  obtain res r' where g: "getModels tenantId r = (res, r')"
    by (cases "getModels tenantId r")
  then have regs: "map_of (registeredSchemas r') n = None"
    using getModels_regs[of tenantId r] Cons.prems(1) by simp
  from Cons.prems(2) g have "res = Resolved models \<or> Resolved models \<in> set (getModels_each tenants r')"
    by auto
  then show ?case
  proof
    assume "res = Resolved models"
    with g Cons.prems(1) show ?thesis using getModels_unregistered by blast
  next
    assume "Resolved models \<in> set (getModels_each tenants r')"
    with regs show ?thesis using Cons.IH by blast
  qed
qed

lemma unregisterSchema_removes: "map_of (registeredSchemas (unregisterSchema name r)) name = None"
  by (simp add: unregisterSchema_def delete_conv' split: option.splits)

text \<open>
  \<^bold>\<open>C8.\<close> After \<^verbatim>\<open>unregisterSchema(name)\<close>, whatever the state before it and whatever the
  caches (tier 2 included) still hold: no call in any run of \<^verbatim>\<open>getModels\<close> calls, for any
  tenants, returns a mapping with a handle under \<open>name\<close>; the name is out of the catalogue;
  and when the name was registered, tier 1, the cache of this process, has been emptied.
\<close>

theorem unregistered_never_returned:
  "(\<forall>res \<in> set (getModels_each tenants (unregisterSchema name r)).
      \<forall>models. res = Resolved models \<longrightarrow> map_of models name = None)
   \<and> \<not> isSchemaRegistered name (unregisterSchema name r)
   \<and> (isSchemaRegistered name r \<longrightarrow>
        l1Cache (cacheManager (unregisterSchema name r)) = Map.empty)"
proof (intro conjI ballI allI impI)
  fix res models
  assume "res \<in> set (getModels_each tenants (unregisterSchema name r))" "res = Resolved models"
  then show "map_of models name = None"
    using getModels_each_unregistered[OF unregisterSchema_removes] by blast
next
  show "\<not> isSchemaRegistered name (unregisterSchema name r)"
    by (simp add: isSchemaRegistered_def unregisterSchema_removes)
next
  assume "isSchemaRegistered name r"
  then show "l1Cache (cacheManager (unregisterSchema name r)) = Map.empty"
    by (auto simp add: isSchemaRegistered_def unregisterSchema_def clear_l1_def)
qed

theorem unregistered_never_returned_witness:
  "isSchemaRegistered ''User'' after_first_call
   \<and> getModels_each [''acme'', ''globex''] (unregisterSchema ''User'' after_first_call) =
       [Resolved [(''Project'', \<lparr>modelName = ''Project'', modelSchema = Schema ''Project'',
                                 modelDb = ''tenant_acme'', collectionName = ''Project''\<rparr>)],
        Resolved [(''Project'', \<lparr>modelName = ''Project'', modelSchema = Schema ''Project'',
                                 modelDb = ''tenant_globex'', collectionName = ''Project''\<rparr>)]]
   \<and> l1Cache (cacheManager (unregisterSchema ''User'' after_first_call)) = Map.empty"
  using unregistered_never_returned[of "[''acme'', ''globex'']" "''User''" after_first_call]
  by (simp add: after_first_call_def cache_defs connection_defs registry_defs scenario_defs
      Let_def)

subsection \<open>Health\<close>

text \<open>
  \<^bold>\<open>C9.\<close> When the statistics of the connection manager can be read, \<^verbatim>\<open>healthCheck\<close>
  reports \<open>degraded\<close> if tier 2 is not available and \<open>healthy\<close> if it is; it reports
  \<open>unhealthy\<close> exactly when reading the statistics throws. So a tier 2 that is down never
  makes the status \<open>unhealthy\<close> by itself.
\<close>

theorem healthCheck_status:
  "(TCM_getStats (connectionManager r) = Inr st \<longrightarrow> \<not> isL2Available (cacheManager r) \<longrightarrow>
      status (healthCheck r) = ''degraded'')
   \<and> (TCM_getStats (connectionManager r) = Inr st \<longrightarrow> isL2Available (cacheManager r) \<longrightarrow>
      status (healthCheck r) = ''healthy'')
   \<and> (status (healthCheck r) = ''unhealthy'' \<longleftrightarrow>
        (\<exists>e. TCM_getStats (connectionManager r) = Inl e))"
  by (cases "TCM_getStats (connectionManager r)") (simp_all add: healthCheck_def Let_def)

theorem healthCheck_status_witness:
  "TCM_getStats (connectionManager tier2_down_registry) =
     Inr \<lparr>totalConnections = 0, stat_connections = []\<rparr>
   \<and> \<not> isL2Available (cacheManager tier2_down_registry)
   \<and> status (healthCheck tier2_down_registry) = ''degraded''
   \<and> isL2Available (cacheManager scenario_registry)
   \<and> status (healthCheck scenario_registry) = ''healthy''
   \<and> TCM_getStats (connectionManager bad_timestamp_registry) = Inl RangeError
   \<and> status (healthCheck bad_timestamp_registry) = ''unhealthy''"
  using healthCheck_status[of tier2_down_registry "\<lparr>totalConnections = 0, stat_connections = []\<rparr>"]
    healthCheck_status[of scenario_registry "\<lparr>totalConnections = 0, stat_connections = []\<rparr>"]
    healthCheck_status[of bad_timestamp_registry]
  by (simp add: tier2_down_registry_def bad_timestamp_registry_def scenario_defs
      connection_defs isL2Available_def)

subsection \<open>The scenarios\<close>

lemma scenario_registered:
  "registerSchemas [(''User'', SchemaInstance (Schema ''User'')),
                    (''Project'', SchemaInstance (Schema ''Project''))] new_registry
   = Inr scenario_registry"
  by (simp add: registry_defs scenario_defs)

text \<open>
  \<^bold>\<open>C3.\<close> The scenario, run on the code: \<open>{User, Project}\<close> registered, \<^verbatim>\<open>getModels("acme")\<close>
  twice. The first call returns the two handles and leaves the tier-1 hit counter at 0 and
  the materialization counter at 1. The second call is served from tier 1 and returns the
  same mapping, with the materialization counter still at 1; but it is the tier-2 hit
  counter that goes to 1, the tier-1 hit counter stays at 0: the cached object has no
  \<^verbatim>\<open>cacheLevel\<close> property, so the comparison with \<^verbatim>\<open>"L1"\<close> fails.
\<close>

theorem second_call_counts_tier2_hit:
  "fst (getModels ''acme'' scenario_registry) =
     Resolved [(''User'', \<lparr>modelName = ''User'', modelSchema = Schema ''User'',
                          modelDb = ''tenant_acme'', collectionName = ''User''\<rparr>),
               (''Project'', \<lparr>modelName = ''Project'', modelSchema = Schema ''Project'',
                             modelDb = ''tenant_acme'', collectionName = ''Project''\<rparr>)]
   \<and> stats after_first_call =
       \<lparr>cacheHits_l1 = 0, cacheHits_l2 = 0, cacheMisses = 2, modelCreations = 1, errors = 0\<rparr>
   \<and> truthy (lru_get (l1Cache (cacheManager after_first_call)) (generateKey ''acme''))
   \<and> fst (getModels ''acme'' after_first_call) = fst (getModels ''acme'' scenario_registry)
   \<and> stats after_second_call =
       \<lparr>cacheHits_l1 = 0, cacheHits_l2 = 1, cacheMisses = 2, modelCreations = 1, errors = 0\<rparr>"
  by (simp add: after_second_call_def after_first_call_def cache_defs connection_defs
      registry_defs scenario_defs Let_def)

text \<open>
  \<^bold>\<open>C2.\<close> \<^verbatim>\<open>getModel("acme", "UnknownCollection")\<close> on the code. For the tenant whose model
  set is already cached, the name is registered by the call, but the mapping rebuilt from
  the cached entry has no handle for it and the call rejects with the not-found error. For
  the tenant not cached yet, the same call returns a handle bound to the fallback schema.
\<close>

theorem getModel_after_caching_not_found:
  "\<not> isSchemaRegistered ''UnknownCollection'' after_first_call
   \<and> fst (getModel ''acme'' ''UnknownCollection'' after_first_call) =
       Rejected (Error ''Model UnknownCollection not found for tenant acme'')
   \<and> isSchemaRegistered ''UnknownCollection''
        (snd (getModel ''acme'' ''UnknownCollection'' after_first_call))
   \<and> fst (getModel ''acme'' ''UnknownCollection'' scenario_registry) =
       Resolved \<lparr>modelName = ''UnknownCollection'', modelSchema = MasterDataSchema,
                 modelDb = ''tenant_acme'', collectionName = ''UnknownCollection''\<rparr>"
  by (simp add: after_first_call_def cache_defs connection_defs registry_defs scenario_defs
      Let_def)

end
